theory Spec2Isabelle
  imports Complex_Main "HOL-Library.Word"
begin

unbundle bit_operations_syntax

section \<open>Python floats\<close>

text \<open>
  A Python \<open>float\<close> is a finite number, one of the two infinities, or NaN.  Finite values
  are carried as reals; signed zeros are not distinguished (Python compares them equal and
  no operation below divides).  Comparisons of floats are exact.  The result of an
  arithmetic operation on two finite floats is the exact result passed through a rounding
  function \<open>rnd\<close>, which every arithmetic operation takes as its first argument: it stands
  for the rounding of the float format (to nearest, overflowing to an infinity) and is
  left arbitrary, so that the theorems hold for whatever it is.  The operations on
  infinities and NaN are those of IEEE 754.
\<close>

datatype pyfloat = Fin real | PInf | NInf | NaN

type_synonym rounding = "real \<Rightarrow> pyfloat"

fun isfinite :: "pyfloat \<Rightarrow> bool" where
  "isfinite (Fin _) = True"
| "isfinite _ = False"

text \<open>\<open>a <= b\<close> on floats: false as soon as one side is NaN.\<close>

fun fle :: "pyfloat \<Rightarrow> pyfloat \<Rightarrow> bool" where
  "fle NaN _ = False"
| "fle _ NaN = False"
| "fle (Fin a) (Fin b) = (a \<le> b)"
| "fle NInf _ = True"
| "fle _ PInf = True"
| "fle _ _ = False"

text \<open>\<open>a < b\<close> on floats.\<close>

fun flt :: "pyfloat \<Rightarrow> pyfloat \<Rightarrow> bool" where
  "flt NaN _ = False"
| "flt _ NaN = False"
| "flt (Fin a) (Fin b) = (a < b)"
| "flt PInf _ = False"
| "flt _ NInf = False"
| "flt _ _ = True"

definition fge :: "pyfloat \<Rightarrow> pyfloat \<Rightarrow> bool" where
  "fge a b = fle b a"

fun fabs :: "pyfloat \<Rightarrow> pyfloat" where
  "fabs (Fin a) = Fin \<bar>a\<bar>"
| "fabs PInf = PInf"
| "fabs NInf = PInf"
| "fabs NaN = NaN"

fun fneg :: "pyfloat \<Rightarrow> pyfloat" where
  "fneg (Fin a) = Fin (- a)"
| "fneg PInf = NInf"
| "fneg NInf = PInf"
| "fneg NaN = NaN"

fun fadd :: "rounding \<Rightarrow> pyfloat \<Rightarrow> pyfloat \<Rightarrow> pyfloat" where
  "fadd rnd (Fin a) (Fin b) = rnd (a + b)"
| "fadd rnd NaN _ = NaN"
| "fadd rnd _ NaN = NaN"
| "fadd rnd PInf NInf = NaN"
| "fadd rnd NInf PInf = NaN"
| "fadd rnd PInf _ = PInf"
| "fadd rnd NInf _ = NInf"
| "fadd rnd _ PInf = PInf"
| "fadd rnd _ NInf = NInf"

definition fsub :: "rounding \<Rightarrow> pyfloat \<Rightarrow> pyfloat \<Rightarrow> pyfloat" where
  "fsub rnd a b = (case (a, b) of
      (Fin x, Fin y) \<Rightarrow> rnd (x - y)
    | _ \<Rightarrow> fadd rnd a (fneg b))"

text \<open>The sign of a float as -1, 0 or 1; only used on non-NaN values.\<close>

fun fsign :: "pyfloat \<Rightarrow> int" where
  "fsign (Fin a) = (if a < 0 then -1 else if a = 0 then 0 else 1)"
| "fsign PInf = 1"
| "fsign NInf = -1"
| "fsign NaN = 0"

definition fmul :: "rounding \<Rightarrow> pyfloat \<Rightarrow> pyfloat \<Rightarrow> pyfloat" where
  "fmul rnd a b = (case (a, b) of
      (Fin x, Fin y) \<Rightarrow> rnd (x * y)
    | (NaN, _) \<Rightarrow> NaN
    | (_, NaN) \<Rightarrow> NaN
    | _ \<Rightarrow> (let s = fsign a * fsign b
            in if s = 0 then NaN else if s < 0 then NInf else PInf))"

text \<open>
  Python's \<open>max(a, b, c)\<close> and \<open>min(a, b, c)\<close>: the first argument is kept unless a later
  one compares strictly greater (smaller).
\<close>

definition fmax3 :: "pyfloat \<Rightarrow> pyfloat \<Rightarrow> pyfloat \<Rightarrow> pyfloat" where
  "fmax3 a b c = (let m = (if flt a b then b else a) in if flt m c then c else m)"

definition fmin3 :: "pyfloat \<Rightarrow> pyfloat \<Rightarrow> pyfloat \<Rightarrow> pyfloat" where
  "fmin3 a b c = (let m = (if flt b a then b else a) in if flt c m then c else m)"

section \<open>Tolerance predicates (measurement.py)\<close>

definition within_tol :: "rounding \<Rightarrow> pyfloat \<Rightarrow> pyfloat \<Rightarrow> pyfloat \<Rightarrow> bool" where
  "within_tol rnd v target tol =
     (isfinite v \<and> isfinite target \<and> isfinite tol \<and> fle (fabs (fsub rnd v target)) tol)"

definition within_max_abs :: "pyfloat \<Rightarrow> pyfloat \<Rightarrow> bool" where
  "within_max_abs v max_value = (isfinite v \<and> isfinite max_value \<and> fle (fabs v) max_value)"

definition within_max :: "pyfloat \<Rightarrow> pyfloat \<Rightarrow> bool" where
  "within_max v max_value = (isfinite v \<and> isfinite max_value \<and> fle v max_value)"

definition range_of_three :: "rounding \<Rightarrow> pyfloat \<Rightarrow> pyfloat \<Rightarrow> pyfloat \<Rightarrow> pyfloat option" where
  "range_of_three rnd a b c =
     (if \<not> (isfinite a \<and> isfinite b \<and> isfinite c) then None
      else Some (fsub rnd (fmax3 a b c) (fmin3 a b c)))"

section \<open>Text and errors\<close>

text \<open>
  Text is modelled for ASCII characters: a Python \<open>str\<close> is a \<open>string\<close> whose characters
  are code points below 128.  The whitespace of \<open>str.strip\<close>, \<open>str.split\<close>, \<open>int\<close> and
  \<open>float\<close> is then tab, line feed, vertical tab, form feed, carriage return, the four
  separators 28 to 31, and the space.
\<close>

datatype error =
  ConversionError | ValueError | OverflowError | IndexError | OSError | RecursionError

definition is_space :: "char \<Rightarrow> bool" where
  "is_space c = (let n = (of_char c :: nat) in (9 \<le> n \<and> n \<le> 13) \<or> (28 \<le> n \<and> n \<le> 32))"

definition strip :: "string \<Rightarrow> string" where
  "strip s = rev (dropWhile is_space (rev (dropWhile is_space s)))"

definition startswith :: "string \<Rightarrow> string \<Rightarrow> bool" where
  "startswith s p = (take (length p) s = p)"

definition endswith :: "string \<Rightarrow> string \<Rightarrow> bool" where
  "endswith s p = (length p \<le> length s \<and> drop (length s - length p) s = p)"

definition is_digit :: "char \<Rightarrow> bool" where
  "is_digit c = (let n = (of_char c :: nat) in 48 \<le> n \<and> n \<le> 57)"

definition digit_val :: "char \<Rightarrow> nat" where
  "digit_val c = of_char c - 48"

definition hex_val :: "char \<Rightarrow> nat option" where
  "hex_val c = (let n = (of_char c :: nat) in
     if 48 \<le> n \<and> n \<le> 57 then Some (n - 48)
     else if 97 \<le> n \<and> n \<le> 102 then Some (n - 87)
     else if 65 \<le> n \<and> n \<le> 70 then Some (n - 55)
     else None)"

definition is_hex :: "char \<Rightarrow> bool" where
  "is_hex c = (hex_val c \<noteq> None)"

text \<open>
  The regular expression \<open>^0x[0-9a-fA-F]+$|^[0-9a-fA-F]+$\<close> applied with \<open>match\<close>
  (\<open>HEX_RE\<close> in conversion.py, \<open>HEX_VALUE_RE\<close> in al1322_client.py).  In Python \<open>$\<close> also
  matches just before a line feed that ends the string.
\<close>

definition hex_re_exact :: "string \<Rightarrow> bool" where
  "hex_re_exact s =
     ((startswith s ''0x'' \<and> drop 2 s \<noteq> [] \<and> list_all is_hex (drop 2 s))
      \<or> (s \<noteq> [] \<and> list_all is_hex s))"

definition hex_re_match :: "string \<Rightarrow> bool" where
  "hex_re_match s =
     (hex_re_exact s \<or> (s \<noteq> [] \<and> last s = CHR 0x0A \<and> hex_re_exact (butlast s)))"

section \<open>Channel configuration (config_store.py)\<close>

record channel_config =
  raw_format :: string
  scale :: pyfloat
  offset :: pyfloat
  start_bit :: "int option"
  bit_length :: "int option"

section \<open>Decoding (conversion.py)\<close>

type_synonym byte = "8 word"

definition SENTINEL_RAW_MIN :: pyfloat where
  "SENTINEL_RAW_MIN = Fin 2147483640"

text \<open>
  \<open>bytes.fromhex\<close> on a string of hexadecimal digit pairs; anything else is its
  \<open>ValueError\<close>.  (The whitespace it would skip never reaches it: \<open>hex_to_bytes\<close> calls it
  only on text that matched \<open>HEX_RE\<close>.)
\<close>

fun fromhex :: "string \<Rightarrow> error + byte list" where
  "fromhex [] = Inr []"
| "fromhex [c] = Inl ValueError"
| "fromhex (a # b # r) =
     (case (hex_val a, hex_val b) of
        (Some x, Some y) \<Rightarrow>
          (case fromhex r of Inl e \<Rightarrow> Inl e | Inr bs \<Rightarrow> Inr (of_nat (16 * x + y) # bs))
      | _ \<Rightarrow> Inl ValueError)"

definition hex_to_bytes :: "string \<Rightarrow> error + byte list" where
  "hex_to_bytes hex_str =
     (let clean = strip hex_str;
          clean = (if startswith clean ''0x'' \<or> startswith clean ''0X'' then drop 2 clean else clean);
          clean = (if length clean mod 2 = 1 then CHR ''0'' # clean else clean)
      in if \<not> hex_re_match clean then Inl ConversionError else fromhex clean)"

text \<open>
  \<open>_apply_bit_slice\<close>; \<open>sgnd\<close> is its argument \<open>signed\<close>.  \<open>value >> start_bit\<close> on Python
  integers is \<open>drop_bit\<close> on \<open>int\<close> (it rounds towards minus infinity) and raises
  \<open>ValueError\<close> for a negative shift count; \<open>&\<close> is \<open>AND\<close> on \<open>int\<close>, and \<open>1 << n\<close> is
  \<open>2 ^ n\<close> (the memory that a very large \<open>bit_length\<close> would need is not modelled).
\<close>

definition apply_bit_slice :: "int \<Rightarrow> int \<Rightarrow> int \<Rightarrow> bool \<Rightarrow> error + int" where
  "apply_bit_slice v sbit blen sgnd =
     (if blen \<le> 0 then Inr v
      else if sbit < 0 then Inl ValueError
      else
        let mask = 2 ^ nat blen - 1;
            sliced = drop_bit (nat sbit) v AND mask;
            sign_bit = 2 ^ nat (blen - 1)
        in if sgnd \<and> sliced AND sign_bit \<noteq> 0 then Inr (sliced - 2 ^ nat blen)
           else Inr sliced)"

text \<open>
  The bit range as the specification words it, for comparison with \<open>apply_bit_slice\<close>:
  the \<open>blen\<close> bits of \<open>v\<close> from bit \<open>sbit\<close> upwards, bit 0 being the least significant,
  read as an unsigned number, or as two's complement with the top bit of the range as
  the sign.
\<close>

definition bit_range :: "int \<Rightarrow> nat \<Rightarrow> nat \<Rightarrow> bool \<Rightarrow> int" where
  "bit_range v sbit blen sgnd =
     (if sgnd then signed_take_bit (blen - 1) (take_bit blen (drop_bit sbit v))
      else take_bit blen (drop_bit sbit v))"

text \<open>\<open>int.from_bytes(raw_bytes, byteorder, signed)\<close>.\<close>

definition be_value :: "byte list \<Rightarrow> int" where
  "be_value bs = foldl (\<lambda>acc b. acc * 256 + uint b) 0 bs"

definition from_bytes :: "byte list \<Rightarrow> bool \<Rightarrow> bool \<Rightarrow> int" where
  "from_bytes raw_bytes big sgnd =
     (let u = be_value (if big then raw_bytes else rev raw_bytes);
          n = 8 * length raw_bytes
      in if sgnd \<and> n > 0 \<and> u \<ge> 2 ^ (n - 1) then u - 2 ^ n else u)"

text \<open>
  \<open>float(value)\<close> for a Python integer: exact up to 53 bits, beyond that rounded to 53
  significant bits, ties to even, and \<open>OverflowError\<close> when the rounded value reaches
  \<open>2 ^ 1024\<close>.
\<close>

fun nbits :: "nat \<Rightarrow> nat" where
  "nbits n = (if n = 0 then 0 else Suc (nbits (n div 2)))"

declare nbits.simps [simp del]

definition float_of_int :: "int \<Rightarrow> error + pyfloat" where
  "float_of_int i =
     (let a = nat \<bar>i\<bar>; n = nbits a
      in if n \<le> 53 then Inr (Fin (real_of_int i))
         else
           let sh = n - 53;
               q = a div 2 ^ sh;
               r = a mod 2 ^ sh;
               half = 2 ^ (sh - 1);
               q' = (if r > half \<or> (r = half \<and> odd q) then q + 1 else q);
               m = q' * 2 ^ sh
           in if m \<ge> 2 ^ 1024 then Inl OverflowError
              else Inr (Fin (if i < 0 then - real m else real m)))"

text \<open>
  \<open>struct.unpack\<close> of an IEEE 754 bit pattern with \<open>ebits\<close> exponent bits and \<open>mbits\<close>
  fraction bits (8 and 23 for format \<open>f\<close>, 11 and 52 for format \<open>d\<close>); \<open>v\<close> is the pattern
  read as an unsigned integer, most significant byte first.
\<close>

definition ieee_decode :: "nat \<Rightarrow> nat \<Rightarrow> nat \<Rightarrow> pyfloat" where
  "ieee_decode ebits mbits v =
     (let sgn = v div 2 ^ (ebits + mbits);
          ex = (v div 2 ^ mbits) mod 2 ^ ebits;
          man = v mod 2 ^ mbits;
          bias = 2 ^ (ebits - 1) - 1
      in if ex = 2 ^ ebits - 1
         then (if man = 0 then (if sgn = 0 then PInf else NInf) else NaN)
         else
           let mag = (if ex = 0 then real man / 2 ^ (bias - 1 + mbits)
                      else real (2 ^ mbits + man) * 2 ^ ex / 2 ^ (bias + mbits))
           in Fin (if sgn = 0 then mag else - mag))"

definition decode_raw_value :: "string \<Rightarrow> channel_config \<Rightarrow> error + pyfloat" where
  "decode_raw_value hex_str cfg =
     (case hex_to_bytes hex_str of
        Inl e \<Rightarrow> Inl e
      | Inr raw_bytes \<Rightarrow>
          if raw_format cfg \<in> set [''uint_be'', ''uint_le'', ''int_be'', ''int_le''] then
            let sgnd = startswith (raw_format cfg) ''int_'';
                big = endswith (raw_format cfg) ''be'';
                v = from_bytes raw_bytes big sgnd
            in (case (start_bit cfg, bit_length cfg) of
                  (Some sb, Some bl) \<Rightarrow>
                    (case apply_bit_slice v sb bl sgnd of
                       Inl e \<Rightarrow> Inl e
                     | Inr v' \<Rightarrow> float_of_int v')
                | _ \<Rightarrow> float_of_int v)
          else if raw_format cfg \<in> set [''float_be'', ''float_le''] then
            let big = endswith (raw_format cfg) ''be'';
                v = nat (be_value (if big then raw_bytes else rev raw_bytes))
            in if length raw_bytes = 4 then Inr (ieee_decode 8 23 v)
               else if length raw_bytes = 8 then Inr (ieee_decode 11 52 v)
               else Inl ConversionError
          else Inl ConversionError)"

definition convert_hex ::
  "rounding \<Rightarrow> string \<Rightarrow> channel_config \<Rightarrow> error + (pyfloat option \<times> pyfloat)" where
  "convert_hex rnd hex_str cfg =
     (case decode_raw_value hex_str cfg of
        Inl e \<Rightarrow> Inl e
      | Inr raw_value \<Rightarrow>
          if \<not> isfinite raw_value \<or> fge raw_value SENTINEL_RAW_MIN then Inr (None, NaN)
          else Inr (Some raw_value, fadd rnd (fmul rnd raw_value (scale cfg)) (offset cfg)))"

section \<open>Configuration store (config_store.py)\<close>

definition MM_PER_IN :: pyfloat where
  "MM_PER_IN = Fin (254 / 10)"

definition in_to_mm :: "rounding \<Rightarrow> pyfloat \<Rightarrow> pyfloat" where
  "in_to_mm rnd value_in = fmul rnd value_in MM_PER_IN"

record targets =
  d1_target :: pyfloat
  d1_tol :: pyfloat
  d2_target :: pyfloat
  d2_tol :: pyfloat
  len_target :: pyfloat
  len_tol :: pyfloat
  dDelta_max :: pyfloat
  end1_max :: pyfloat
  end2_max :: pyfloat

record hmi_config =
  serial_port :: string
  baud :: int

record config =
  al1322_ip :: string
  poll_interval_s :: pyfloat
  request_timeout_s :: pyfloat
  log_capacity :: int
  hmi :: hmi_config
  targets :: targets
  offsets_mm :: "pyfloat list"
  channels :: "channel_config list"

definition default_targets :: targets where
  "default_targets = \<lparr>d1_target = Fin 0, d1_tol = Fin (50 / 1000), d2_target = Fin 0,
     d2_tol = Fin (50 / 1000), len_target = Fin 1165, len_tol = Fin (200 / 1000),
     dDelta_max = Fin (50 / 1000), end1_max = Fin (50 / 1000), end2_max = Fin (50 / 1000)\<rparr>"

definition default_channel :: channel_config where
  "default_channel = \<lparr>raw_format = ''uint_be'', scale = Fin (1 / 1000), offset = Fin 0,
     start_bit = None, bit_length = None\<rparr>"

definition default_config :: config where
  "default_config = \<lparr>al1322_ip = ''192.168.100.1'', poll_interval_s = Fin (5 / 10),
     request_timeout_s = Fin 1, log_capacity = 200,
     hmi = \<lparr>serial_port = ''/dev/serial0'', baud = 115200\<rparr>,
     targets = default_targets, offsets_mm = replicate 8 (Fin 0),
     channels = replicate 8 default_channel\<rparr>"

text \<open>
  The store: the live configuration and the version counter (a Python integer, so it
  never wraps).  The lock is not modelled: each operation below is one critical section.
\<close>

record config_store =
  cfg :: config
  version :: int

text \<open>
  \<open>int(text)\<close> on ASCII text: surrounding whitespace is dropped, then an optional sign, then
  decimal digits in which single underscores may separate digits.  \<open>None\<close> is the
  \<open>ValueError\<close>.
\<close>

fun int_digits :: "nat \<Rightarrow> string \<Rightarrow> nat option" where
  "int_digits acc [] = Some acc"
| "int_digits acc [c] = (if is_digit c then Some (acc * 10 + digit_val c) else None)"
| "int_digits acc (c # d # r) =
     (if is_digit c then int_digits (acc * 10 + digit_val c) (d # r)
      else if c = CHR ''_'' \<and> is_digit d then int_digits (acc * 10 + digit_val d) r
      else None)"

definition int_unsigned :: "string \<Rightarrow> nat option" where
  "int_unsigned s = (case s of [] \<Rightarrow> None
     | c # r \<Rightarrow> if is_digit c then int_digits (digit_val c) r else None)"

definition py_int :: "string \<Rightarrow> int option" where
  "py_int text = (case strip text of
       [] \<Rightarrow> None
     | c # r \<Rightarrow>
         if c = CHR ''-'' then map_option (\<lambda>n. - int n) (int_unsigned r)
         else if c = CHR ''+'' then map_option int (int_unsigned r)
         else map_option int (int_unsigned (c # r)))"

definition replace_config :: "config \<Rightarrow> config_store \<Rightarrow> config_store" where
  "replace_config c st = st\<lparr>cfg := c, version := version st + 1\<rparr>"

text \<open>
  \<open>setattr(targets, key, value)\<close> guarded by \<open>hasattr(targets, key)\<close>, for the nine fields
  of \<open>Targets\<close>; any other key is skipped.  (The callers in the repository pass only these
  nine names; Python's own attributes of the object, such as \<open>__class__\<close>, are not
  modelled.)
\<close>

definition set_target :: "string \<Rightarrow> pyfloat \<Rightarrow> targets \<Rightarrow> targets" where
  "set_target key v t =
     (if key = ''d1_target'' then t\<lparr>d1_target := v\<rparr>
      else if key = ''d1_tol'' then t\<lparr>d1_tol := v\<rparr>
      else if key = ''d2_target'' then t\<lparr>d2_target := v\<rparr>
      else if key = ''d2_tol'' then t\<lparr>d2_tol := v\<rparr>
      else if key = ''len_target'' then t\<lparr>len_target := v\<rparr>
      else if key = ''len_tol'' then t\<lparr>len_tol := v\<rparr>
      else if key = ''dDelta_max'' then t\<lparr>dDelta_max := v\<rparr>
      else if key = ''end1_max'' then t\<lparr>end1_max := v\<rparr>
      else if key = ''end2_max'' then t\<lparr>end2_max := v\<rparr>
      else t)"

text \<open>The dictionary \<open>updates\<close> is given as its items, in iteration order.\<close>

definition update_targets_mm :: "(string \<times> pyfloat) list \<Rightarrow> config_store \<Rightarrow> config_store" where
  "update_targets_mm updates st =
     st\<lparr>cfg := (cfg st)\<lparr>targets := foldl (\<lambda>t (key, v). set_target key v t) (targets (cfg st)) updates\<rparr>,
        version := version st + 1\<rparr>"

definition update_offsets_mm :: "pyfloat list \<Rightarrow> config_store \<Rightarrow> config_store" where
  "update_offsets_mm offs st =
     (let o8 = take 8 offs;
          o8 = (if length o8 < 8 then o8 @ replicate (8 - length o8) (Fin 0) else o8)
      in st\<lparr>cfg := (cfg st)\<lparr>offsets_mm := o8\<rparr>, version := version st + 1\<rparr>)"

text \<open>
  \<open>update_from_hmi_set\<close> returns its boolean, or the \<open>IndexError\<close> of the list assignment
  \<open>offsets_mm[idx] = value_mm\<close> when the list is shorter than \<open>idx + 1\<close>, together with the
  store as the call leaves it.
\<close>

definition bump :: "config_store \<Rightarrow> config \<Rightarrow> (error + bool) \<times> config_store" where
  "bump st c = (Inr True, st\<lparr>cfg := c, version := version st + 1\<rparr>)"

definition update_from_hmi_set ::
  "rounding \<Rightarrow> string \<Rightarrow> pyfloat \<Rightarrow> config_store \<Rightarrow> (error + bool) \<times> config_store" where
  "update_from_hmi_set rnd key value_in st =
     (let value_mm = in_to_mm rnd value_in; c = cfg st; t = targets c
      in if key = ''d1t'' then bump st (c\<lparr>targets := t\<lparr>d1_target := value_mm\<rparr>\<rparr>)
         else if key = ''d1tol'' then bump st (c\<lparr>targets := t\<lparr>d1_tol := value_mm\<rparr>\<rparr>)
         else if key = ''d2t'' then bump st (c\<lparr>targets := t\<lparr>d2_target := value_mm\<rparr>\<rparr>)
         else if key = ''d2tol'' then bump st (c\<lparr>targets := t\<lparr>d2_tol := value_mm\<rparr>\<rparr>)
         else if key = ''lent'' then bump st (c\<lparr>targets := t\<lparr>len_target := value_mm\<rparr>\<rparr>)
         else if key = ''lentol'' then bump st (c\<lparr>targets := t\<lparr>len_tol := value_mm\<rparr>\<rparr>)
         else if key = ''ddelmax'' then bump st (c\<lparr>targets := t\<lparr>dDelta_max := value_mm\<rparr>\<rparr>)
         else if key = ''e1max'' then bump st (c\<lparr>targets := t\<lparr>end1_max := value_mm\<rparr>\<rparr>)
         else if key = ''e2max'' then bump st (c\<lparr>targets := t\<lparr>end2_max := value_mm\<rparr>\<rparr>)
         else if startswith key ''off'' then
           (case py_int (drop 3 key) of
              None \<Rightarrow> (Inr False, st)
            | Some idx \<Rightarrow>
                if 0 \<le> idx \<and> idx < 8 then
                  (if nat idx < length (offsets_mm c)
                   then bump st (c\<lparr>offsets_mm := (offsets_mm c)[nat idx := value_mm]\<rparr>)
                   else (Inl IndexError, st))
                else (Inr False, st))
         else (Inr False, st))"

text \<open>
  The keys that \<open>update_from_hmi_set\<close> compares with, and the index it reads from a
  key that starts with \<open>off\<close>.
\<close>

definition TARGET_KEYS :: "string list" where
  "TARGET_KEYS = [''d1t'', ''d1tol'', ''d2t'', ''d2tol'', ''lent'', ''lentol'', ''ddelmax'',
     ''e1max'', ''e2max'']"

definition offset_index :: "string \<Rightarrow> int option" where
  "offset_index key = (if startswith key ''off'' then py_int (drop 3 key) else None)"

text \<open>
  The fixed symbolic table as the specification words it: the nine target and tolerance
  keys and the eight offset keys \<open>off0\<close> to \<open>off7\<close>.
\<close>

definition SYMBOLIC_TABLE :: "string list" where
  "SYMBOLIC_TABLE = TARGET_KEYS @
     [''off0'', ''off1'', ''off2'', ''off3'', ''off4'', ''off5'', ''off6'', ''off7'']"

text \<open>
  \<open>load\<close> reads the configuration file; what it finds there is an input of the model:
  a file that \<open>Config.from_dict\<close> turns into a configuration, a file on which reading or
  \<open>from_dict\<close> raises, or no file, in which case the defaults are installed and saved
  (the flag tells whether \<open>save\<close> succeeds).
\<close>

datatype disk = FileConfig config | FileInvalid | NoFile bool

definition load :: "disk \<Rightarrow> config_store \<Rightarrow> (error + bool) \<times> config_store" where
  "load d st = (case d of
       FileConfig c \<Rightarrow> (Inr True, st\<lparr>cfg := c, version := version st + 1\<rparr>)
     | FileInvalid \<Rightarrow> (Inl ValueError, st)
     | NoFile save_ok \<Rightarrow>
         if save_ok then (Inr True, st\<lparr>cfg := default_config, version := version st + 1\<rparr>)
         else (Inl OSError, st\<lparr>cfg := default_config\<rparr>))"

text \<open>
  The mutating operations of the store as one type, with the outcome of each (the value
  returned, \<open>True\<close> for the operations that return nothing, or the exception raised) and
  the store afterwards.
\<close>

datatype mutation =
    Replace config
  | UpdateTargets "(string \<times> pyfloat) list"
  | UpdateOffsets "pyfloat list"
  | HmiSet string pyfloat
  | Load disk

fun apply_mutation :: "rounding \<Rightarrow> mutation \<Rightarrow> config_store \<Rightarrow> (error + bool) \<times> config_store" where
  "apply_mutation rnd (Replace c) st = (Inr True, replace_config c st)"
| "apply_mutation rnd (UpdateTargets u) st = (Inr True, update_targets_mm u st)"
| "apply_mutation rnd (UpdateOffsets os) st = (Inr True, update_offsets_mm os st)"
| "apply_mutation rnd (HmiSet key v) st = update_from_hmi_set rnd key v st"
| "apply_mutation rnd (Load d) st = load d st"

text \<open>A sequence of operations on the store; an operation that raises leaves the store as it is at that point and the next one runs on it.\<close>

fun apply_mutations :: "rounding \<Rightarrow> mutation list \<Rightarrow> config_store \<Rightarrow> config_store" where
  "apply_mutations rnd [] st = st"
| "apply_mutations rnd (m # ms) st = apply_mutations rnd ms (snd (apply_mutation rnd m st))"

section \<open>Sensor client (al1322_client.py)\<close>








record port_read_result =
  port :: int
  ok :: bool
  raw_hex :: "string option"
  error :: "string option"
  http_status :: "int option"
  response_time_s :: "pyfloat option"

section \<open>Measurement cycle (measurement.py)\<close>

definition CONSTANT_LENGTH_MM :: pyfloat where
  "CONSTANT_LENGTH_MM = Fin 1165"

text \<open>
  One pass of the second loop of \<open>_run\<close> for channel \<open>idx\<close>: the pair (raw value,
  value in mm) stored for the channel and whether \<open>all_ok\<close> survives.  A
  \<open>ConversionError\<close> is caught; any other exception leaves the loop, as does the
  \<open>IndexError\<close> of \<open>config.channels[idx]\<close>.
\<close>

definition convert_one ::
  "rounding \<Rightarrow> config \<Rightarrow> nat \<Rightarrow> port_read_result \<Rightarrow> error + (bool \<times> pyfloat option \<times> pyfloat)" where
  "convert_one rnd c idx r =
     (case raw_hex r of
        Some h \<Rightarrow>
          if ok r \<and> h \<noteq> [] then
            (if idx < length (channels c) then
               (case convert_hex rnd h (channels c ! idx) of
                  Inl ConversionError \<Rightarrow> Inr (False, None, NaN)
                | Inl e \<Rightarrow> Inl e
                | Inr (raw_value, value_mm) \<Rightarrow> Inr (True, raw_value, value_mm))
             else Inl IndexError)
          else Inr (True, None, NaN)
      | None \<Rightarrow> Inr (True, None, NaN))"

fun convert_all ::
  "rounding \<Rightarrow> config \<Rightarrow> nat \<Rightarrow> port_read_result list
     \<Rightarrow> error + (bool \<times> (pyfloat option \<times> pyfloat) list)" where
  "convert_all rnd c idx [] = Inr (True, [])"
| "convert_all rnd c idx (r # rs) =
     (case convert_one rnd c idx r of
        Inl e \<Rightarrow> Inl e
      | Inr (k, x) \<Rightarrow>
          (case convert_all rnd c (Suc idx) rs of
             Inl e \<Rightarrow> Inl e
           | Inr (ks, xs) \<Rightarrow> Inr (k \<and> ks, x # xs)))"

text \<open>The third loop: the offset of the channel is added to every finite value.\<close>

fun add_offsets :: "rounding \<Rightarrow> pyfloat list \<Rightarrow> nat \<Rightarrow> pyfloat list \<Rightarrow> error + pyfloat list" where
  "add_offsets rnd offs idx [] = Inr []"
| "add_offsets rnd offs idx (v # vs) =
     (if isfinite v \<and> \<not> idx < length offs then Inl IndexError
      else
        (case add_offsets rnd offs (Suc idx) vs of
           Inl e \<Rightarrow> Inl e
         | Inr ws \<Rightarrow> Inr ((if isfinite v then fadd rnd v (offs ! idx) else NaN) # ws)))"

record metrics =
  m_d1 :: pyfloat
  m_d2 :: pyfloat
  m_dDelta :: pyfloat
  m_end1_rng :: pyfloat
  m_end2_rng :: pyfloat
  m_length :: pyfloat

record checks =
  c_d1 :: bool
  c_d2 :: bool
  c_dDelta :: bool
  c_end1_rng :: bool
  c_end2_rng :: bool
  c_length :: bool

text \<open>
  What a cycle publishes through \<open>_update_state\<close>: the fields \<open>raw_hex\<close>, \<open>raw_values\<close>,
  \<open>values_mm\<close>, \<open>metrics_mm\<close>, \<open>checks\<close> and \<open>overall_pass\<close> of \<open>MeasurementState\<close>.
  The inch copies, the timestamps and the per-port status are left out.
\<close>

record measurement_state =
  s_raw_hex :: "string option list"
  s_raw_values :: "pyfloat option list"
  s_values_mm :: "pyfloat list"
  s_metrics_mm :: metrics
  s_checks :: checks
  overall_pass :: bool

definition or_nan :: "pyfloat option \<Rightarrow> pyfloat" where
  "or_nan x = (case x of None \<Rightarrow> NaN | Some v \<Rightarrow> v)"

text \<open>
  One cycle of \<open>_run\<close>, from the configuration snapshot and the client, whose
  \<open>read_port_get\<close> is the function \<open>client\<close> from the port number to the result of the
  read.  The ports are read in the order 1 to 8.  The result is the published state, or
  the exception that ends the loop.
\<close>

definition run_cycle ::
  "rounding \<Rightarrow> config \<Rightarrow> (int \<Rightarrow> port_read_result) \<Rightarrow> error + measurement_state" where
  "run_cycle rnd c client =
     (let results = map client [1, 2, 3, 4, 5, 6, 7, 8];
          reads_ok = list_all ok results
      in case convert_all rnd c 0 results of
           Inl e \<Rightarrow> Inl e
         | Inr (conv_ok, converted) \<Rightarrow>
             (let all_ok = (reads_ok \<and> conv_ok);
                  converted_mm = map snd converted
              in case add_offsets rnd (offsets_mm c) 0 converted_mm of
                   Inl e \<Rightarrow> Inl e
                 | Inr w \<Rightarrow>
                     (let d1 = w ! 0;
                          d2 = w ! 1;
                          d_delta = (if isfinite d1 \<and> isfinite d2 then fsub rnd d1 d2 else NaN);
                          end1_rng = range_of_three rnd (w ! 2) (w ! 3) (w ! 4);
                          end2_rng = range_of_three rnd (w ! 5) (w ! 6) (w ! 7);
                          len = (if isfinite (w ! 2) \<and> isfinite (w ! 5)
                                 then fsub rnd CONSTANT_LENGTH_MM (fadd rnd (w ! 2) (w ! 5))
                                 else NaN);
                          t = targets c;
                          ok_d1 = within_tol rnd d1 (d1_target t) (d1_tol t);
                          ok_d2 = within_tol rnd d2 (d2_target t) (d2_tol t);
                          ok_dd = within_max_abs d_delta (dDelta_max t);
                          ok_e1 = within_max (or_nan end1_rng) (end1_max t);
                          ok_e2 = within_max (or_nan end2_rng) (end2_max t);
                          ok_len = within_tol rnd len (len_target t) (len_tol t);
                          overall = (all_ok \<and> ok_d1 \<and> ok_d2 \<and> ok_dd \<and> ok_e1 \<and> ok_e2 \<and> ok_len)
                      in Inr \<lparr>s_raw_hex = map raw_hex results,
                              s_raw_values = map fst converted,
                              s_values_mm = converted_mm,
                              s_metrics_mm = \<lparr>m_d1 = d1, m_d2 = d2, m_dDelta = d_delta,
                                 m_end1_rng = or_nan end1_rng, m_end2_rng = or_nan end2_rng,
                                 m_length = len\<rparr>,
                              s_checks = \<lparr>c_d1 = ok_d1, c_d2 = ok_d2, c_dDelta = ok_dd,
                                 c_end1_rng = ok_e1, c_end2_rng = ok_e2, c_length = ok_len\<rparr>,
                              overall_pass = overall\<rparr>)))"

text \<open>
  The scheduling of \<open>_run\<close>: what one pass of the \<open>while\<close> loop does with the tick it
  holds, given the clock reading \<open>now\<close> taken at the top of the pass and the poll interval
  of the configuration snapshot, and the tick it leaves for the next pass.
\<close>

datatype pass = Sleep pyfloat | Cycle

definition schedule :: "rounding \<Rightarrow> pyfloat \<Rightarrow> pyfloat \<Rightarrow> pyfloat \<Rightarrow> pass \<times> pyfloat" where
  "schedule rnd next_tick now interval =
     (if flt now next_tick then (Sleep (Fin (1 / 100)), next_tick)
      else (Cycle, fadd rnd now interval))"

text \<open>
  The tick as the specification words it: accumulated from the previous scheduled tick.
\<close>

definition accumulated_tick :: "rounding \<Rightarrow> pyfloat \<Rightarrow> pyfloat \<Rightarrow> pyfloat" where
  "accumulated_tick rnd next_tick interval = fadd rnd next_tick interval"

section \<open>HMI handler (hmi.py)\<close>

subsection \<open>Frame assembly\<close>

text \<open>
  The two fields \<open>_buf\<close> and \<open>_ff_count\<close> of the handler.  The body of the loop
  \<open>for byte in data\<close> of \<open>_read_loop\<close> is \<open>read_byte\<close>; the method \<open>_process_frame\<close> it
  calls is a parameter, a function from the frame and the rest of the handler's state
  to that state afterwards, or to the exception it raises, which then leaves the
  loop.  The chunks returned by \<open>ser.read(64)\<close> are consumed one after the other by the
  same loop body, so \<open>read_bytes\<close> runs it over the bytes received.
\<close>

record assembler =
  buf :: "byte list"
  ff_count :: nat

definition read_byte ::
  "(byte list \<Rightarrow> 'h \<Rightarrow> error + 'h) \<Rightarrow> assembler \<times> 'h \<Rightarrow> byte \<Rightarrow> error + assembler \<times> 'h" where
  "read_byte process_frame ah b =
     (let a = fst ah; h = snd ah
      in if b = 0xFF then
           (let a1 = a\<lparr>ff_count := ff_count a + 1\<rparr>
            in if ff_count a1 \<ge> 3 then
                 (case process_frame (buf a1) h of
                    Inl e \<Rightarrow> Inl e
                  | Inr h' \<Rightarrow> Inr (a1\<lparr>buf := [], ff_count := 0\<rparr>, h'))
               else Inr (a1, h))
         else
           (let a1 = a\<lparr>ff_count := 0\<rparr>
            in Inr (if length (buf a1) < 256 then a1\<lparr>buf := buf a1 @ [b]\<rparr> else a1, h)))"

fun read_bytes ::
  "(byte list \<Rightarrow> 'h \<Rightarrow> error + 'h) \<Rightarrow> assembler \<times> 'h \<Rightarrow> byte list \<Rightarrow> error + assembler \<times> 'h" where
  "read_bytes process_frame ah [] = Inr ah"
| "read_bytes process_frame ah (b # bs) =
     (case read_byte process_frame ah b of
        Inl e \<Rightarrow> Inl e
      | Inr ah' \<Rightarrow> read_bytes process_frame ah' bs)"

text \<open>The bytes of an ASCII text.\<close>

definition ascii :: "string \<Rightarrow> byte list" where
  "ascii s = map of_char s"

text \<open>A \<open>_process_frame\<close> that only records the frames it is given.\<close>

definition record_frame :: "byte list \<Rightarrow> byte list list \<Rightarrow> error + byte list list" where
  "record_frame frame seen = Inr (seen @ [frame])"

subsection \<open>Command lines\<close>

text \<open>\<open>str.split()\<close> without arguments, \<open>str.upper\<close>, \<open>str.lower\<close> and \<open>str.split(sep, 1)\<close>.\<close>

fun split_acc :: "string \<Rightarrow> string \<Rightarrow> string list" where
  "split_acc cur [] = (if cur = [] then [] else [cur])"
| "split_acc cur (c # cs) =
     (if is_space c then (if cur = [] then split_acc [] cs else cur # split_acc [] cs)
      else split_acc (cur @ [c]) cs)"

definition split_ws :: "string \<Rightarrow> string list" where
  "split_ws s = split_acc [] s"

definition to_upper :: "char \<Rightarrow> char" where
  "to_upper c = (case map_of (zip ''abcdefghijklmnopqrstuvwxyz'' ''ABCDEFGHIJKLMNOPQRSTUVWXYZ'') c of
       Some u \<Rightarrow> u | None \<Rightarrow> c)"

definition to_lower :: "char \<Rightarrow> char" where
  "to_lower c = (case map_of (zip ''ABCDEFGHIJKLMNOPQRSTUVWXYZ'' ''abcdefghijklmnopqrstuvwxyz'') c of
       Some l \<Rightarrow> l | None \<Rightarrow> c)"

definition upper :: "string \<Rightarrow> string" where
  "upper s = map to_upper s"

definition lower :: "string \<Rightarrow> string" where
  "lower s = map to_lower s"

definition split1 :: "char \<Rightarrow> string \<Rightarrow> string \<times> string" where
  "split1 sep s = (takeWhile (\<lambda>c. c \<noteq> sep) s, drop 1 (dropWhile (\<lambda>c. c \<noteq> sep) s))"

text \<open>
  What \<open>_handle_line\<close> acts on: the configuration store, the log, and the serial link.
  The log is the sequence of the entries added (the capacity of the ring is not
  modelled); an entry is its level and what the message reports.  A push to the display
  is recorded as the values pushed (the text of the messages and of the display commands
  is not modelled).
\<close>

datatype message =
    HmiCommand string
  | InvalidSetFormat string
  | InvalidSetValue string
  | UnknownSetKey string
  | ConfigSaved
  | ConfigDump targets "pyfloat list"

datatype push = SendTargets targets | SendOffsets "pyfloat list"

record handler =
  store :: config_store
  log :: "(string \<times> message) list"
  sent :: "push list"

definition log_add :: "string \<Rightarrow> message \<Rightarrow> handler \<Rightarrow> handler" where
  "log_add level m h = h\<lparr>log := log h @ [(level, m)]\<rparr>"

text \<open>
  \<open>_handle_line\<close>; \<open>handle_set\<close> is the end of its \<open>SET\<close> branch, from
  \<open>key = key.strip().lower()\<close> on, which both forms of the command reach.  Python's
  \<open>float(text)\<close> is the parameter \<open>float_of_str\<close> (\<open>None\<close> is its \<open>ValueError\<close>);
  \<open>writable\<close> tells whether \<open>save\<close> can write the file: when it cannot, \<open>save\<close> raises
  \<open>OSError\<close>.
\<close>

definition handle_set ::
  "rounding \<Rightarrow> (string \<Rightarrow> pyfloat option) \<Rightarrow> string \<Rightarrow> string \<Rightarrow> handler \<Rightarrow> error + handler" where
  "handle_set rnd float_of_str key val_token h =
     (let key = lower (strip key); val_token = strip val_token
      in case float_of_str val_token of
           None \<Rightarrow> Inr (log_add ''ERROR'' (InvalidSetValue val_token) h)
         | Some value_in \<Rightarrow>
             (case update_from_hmi_set rnd key value_in (store h) of
                (Inl e, st) \<Rightarrow> Inl e
              | (Inr updated, st) \<Rightarrow>
                  (let h = h\<lparr>store := st\<rparr>
                   in if \<not> updated then Inr (log_add ''ERROR'' (UnknownSetKey key) h)
                      else Inr h)))"

definition handle_line ::
  "rounding \<Rightarrow> (string \<Rightarrow> pyfloat option) \<Rightarrow> bool \<Rightarrow> string \<Rightarrow> handler \<Rightarrow> error + handler" where
  "handle_line rnd float_of_str writable line h0 =
     (if line = [] then Inr h0
      else
        let h = log_add ''INFO'' (HmiCommand line) h0;
            parts = split_ws line
        in if parts = [] then Inr h
           else
             let cmd = upper (parts ! 0)
             in if cmd = ''SET'' \<and> length parts \<ge> 2 then
                  (if length parts = 2 then
                     (let payload = strip (drop (length (parts ! 0)) line)
                      in if CHR ''='' \<in> set payload
                         then handle_set rnd float_of_str (fst (split1 CHR ''='' payload))
                                (snd (split1 CHR ''='' payload)) h
                         else if CHR '':'' \<in> set payload
                         then handle_set rnd float_of_str (fst (split1 CHR '':'' payload))
                                (snd (split1 CHR '':'' payload)) h
                         else if CHR '','' \<in> set payload
                         then handle_set rnd float_of_str (fst (split1 CHR '','' payload))
                                (snd (split1 CHR '','' payload)) h
                         else Inr (log_add ''ERROR'' (InvalidSetFormat line) h))
                   else handle_set rnd float_of_str (parts ! 1) (parts ! 2) h)
                else if cmd = ''SAVE'' then
                  (if writable then Inr (log_add ''INFO'' ConfigSaved h) else Inl OSError)
                else if cmd = ''REQ'' \<and> length parts \<ge> 2 then
                  (let req = upper (parts ! 1); c = cfg (store h)
                   in if req = ''TARGETS'' then Inr (h\<lparr>sent := sent h @ [SendTargets (targets c)]\<rparr>)
                      else if req = ''OFFSETS'' then Inr (h\<lparr>sent := sent h @ [SendOffsets (offsets_mm c)]\<rparr>)
                      else Inr h)
                else if cmd = ''DUMP'' then
                  Inr (log_add ''INFO'' (ConfigDump (targets (cfg (store h))) (offsets_mm (cfg (store h)))) h)
                else Inr h)"

section \<open>Properties\<close>

subsection \<open>Auxiliary facts\<close>

lemma fsub_Fin: "fsub rnd (Fin a) (Fin b) = rnd (a - b)"
  by (simp add: fsub_def)

lemma isfinite_iff: "isfinite v = (\<exists>a. v = Fin a)"
  by (cases v) simp_all

lemmas text_simps = strip_def is_space_def startswith_def endswith_def is_digit_def digit_val_def

lemmas decode_simps = decode_raw_value_def hex_to_bytes_def text_simps
  hex_re_match_def hex_re_exact_def is_hex_def hex_val_def from_bytes_def be_value_def
  apply_bit_slice_def float_of_int_def nbits.simps Let_def

lemma decode_sentinel:
  "decode_raw_value ''7FFFFFF8'' default_channel = Inr (Fin 2147483640)"
  by (simp add: decode_simps default_channel_def)

lemma decode_five:
  "decode_raw_value ''00000005'' default_channel = Inr (Fin 5)"
  by (simp add: decode_simps default_channel_def)

lemma decode_infinity:
  "decode_raw_value ''7F800000'' (default_channel\<lparr>raw_format := ''float_be''\<rparr>) = Inr PInf"
  by (simp add: decode_simps default_channel_def ieee_decode_def)

subsection \<open>Tolerance predicates\<close>

text \<open>
  C3.  The three tolerance predicates are boolean functions defined on all floats.
  \<open>within_tol\<close> holds exactly when value, target and tolerance are finite and the
  absolute value of the float difference \<open>value - target\<close> is at most the tolerance (with
  exact subtraction: when \<open>|value - target| \<le> tol\<close>); \<open>within_max_abs\<close> and \<open>within_max\<close>
  hold exactly when both arguments are finite and \<open>|value| \<le> max\<close>, respectively
  \<open>value \<le> max\<close>.  A NaN in any argument, and the NaN that stands for an absent range,
  gives false.  \<open>within_tol(5.0, 5.0, 0.05)\<close> is true and \<open>within_tol(5.06, 5.0, 0.05)\<close>
  is false (both subtractions are exact).
\<close>

theorem tolerance_predicates_total:
  "within_tol rnd v target tol =
     (\<exists>a b c. v = Fin a \<and> target = Fin b \<and> tol = Fin c \<and> fle (fabs (rnd (a - b))) (Fin c))
   \<and> within_tol Fin v target tol =
     (\<exists>a b c. v = Fin a \<and> target = Fin b \<and> tol = Fin c \<and> \<bar>a - b\<bar> \<le> c)
   \<and> within_max_abs v m = (\<exists>a b. v = Fin a \<and> m = Fin b \<and> \<bar>a\<bar> \<le> b)
   \<and> within_max v m = (\<exists>a b. v = Fin a \<and> m = Fin b \<and> a \<le> b)
   \<and> \<not> within_tol rnd NaN target tol \<and> \<not> within_tol rnd v NaN tol \<and> \<not> within_tol rnd v target NaN
   \<and> \<not> within_max_abs NaN m \<and> \<not> within_max_abs v NaN
   \<and> \<not> within_max NaN m \<and> \<not> within_max v NaN \<and> \<not> within_max (or_nan None) m
   \<and> within_tol Fin (Fin 5) (Fin 5) (Fin (5 / 100))
   \<and> \<not> within_tol Fin (Fin (506 / 100)) (Fin 5) (Fin (5 / 100))"
proof -
  have t: "within_tol r v target tol =
     (\<exists>a b c. v = Fin a \<and> target = Fin b \<and> tol = Fin c \<and> fle (fabs (r (a - b))) (Fin c))" for r
    by (cases v; cases target; cases tol) (simp_all add: within_tol_def fsub_Fin)
  have ma: "within_max_abs v m = (\<exists>a b. v = Fin a \<and> m = Fin b \<and> \<bar>a\<bar> \<le> b)"
    by (cases v; cases m) (simp_all add: within_max_abs_def)
  have mx: "within_max v m = (\<exists>a b. v = Fin a \<and> m = Fin b \<and> a \<le> b)"
    by (cases v; cases m) (simp_all add: within_max_def)
  have nan: "\<not> within_tol rnd NaN target tol" "\<not> within_tol rnd v NaN tol"
    "\<not> within_tol rnd v target NaN" "\<not> within_max_abs NaN m" "\<not> within_max_abs v NaN"
    "\<not> within_max NaN m" "\<not> within_max v NaN" "\<not> within_max (or_nan None) m"
    by (simp_all add: within_tol_def within_max_abs_def within_max_def or_nan_def)
  have ex: "within_tol Fin (Fin 5) (Fin 5) (Fin (5 / 100))"
    "\<not> within_tol Fin (Fin (506 / 100)) (Fin 5) (Fin (5 / 100))"
    by (simp_all add: within_tol_def fsub_Fin)
  from t[of rnd] have t1: "within_tol rnd v target tol =
     (\<exists>a b c. v = Fin a \<and> target = Fin b \<and> tol = Fin c \<and> fle (fabs (rnd (a - b))) (Fin c))" .
  from t[of Fin] have t2: "within_tol Fin v target tol =
     (\<exists>a b c. v = Fin a \<and> target = Fin b \<and> tol = Fin c \<and> \<bar>a - b\<bar> \<le> c)" by simp
  show ?thesis
    using t1 t2 ma mx nan ex by blast
qed

subsection \<open>Conversion\<close>

text \<open>
  C2.  Whenever the payload decodes to a raw value: if that value is not finite or is at
  least 2147483640.0, \<open>convert_hex\<close> returns (absent, NaN) whatever scale and offset are
  configured; otherwise it returns the raw value and \<open>raw_value * scale + offset\<close>.
\<close>

theorem convert_hex_sentinel:
  assumes "decode_raw_value hex_str ch = Inr raw"
  shows "(\<not> isfinite raw \<or> fge raw (Fin 2147483640) \<longrightarrow>
            convert_hex rnd hex_str (ch\<lparr>scale := s, offset := off\<rparr>) = Inr (None, NaN))
       \<and> (isfinite raw \<and> \<not> fge raw (Fin 2147483640) \<longrightarrow>
            convert_hex rnd hex_str ch
              = Inr (Some raw, fadd rnd (fmul rnd raw (scale ch)) (offset ch)))"
proof -
  have "decode_raw_value hex_str (ch\<lparr>scale := s, offset := off\<rparr>) = decode_raw_value hex_str ch"
    by (cases "hex_to_bytes hex_str") (simp_all add: decode_raw_value_def Let_def)
  with assms show ?thesis
    by (simp add: convert_hex_def SENTINEL_RAW_MIN_def)
qed

theorem convert_hex_sentinel_witness:
  "decode_raw_value ''7FFFFFF8'' default_channel = Inr (Fin 2147483640)
   \<and> convert_hex Fin ''7FFFFFF8'' (default_channel\<lparr>scale := Fin 2, offset := Fin 7\<rparr>) = Inr (None, NaN)
   \<and> decode_raw_value ''7F800000'' (default_channel\<lparr>raw_format := ''float_be''\<rparr>) = Inr PInf
   \<and> convert_hex Fin ''7F800000'' (default_channel\<lparr>raw_format := ''float_be'', scale := Fin 2, offset := Fin 7\<rparr>)
       = Inr (None, NaN)
   \<and> decode_raw_value ''00000005'' default_channel = Inr (Fin 5)
   \<and> convert_hex Fin ''00000005'' default_channel = Inr (Some (Fin 5), Fin (5 / 1000))"
  using convert_hex_sentinel [OF decode_sentinel, where rnd = Fin and s = "Fin 2" and off = "Fin 7"]
    convert_hex_sentinel [OF decode_infinity, where rnd = Fin and s = "Fin 2" and off = "Fin 7"]
    convert_hex_sentinel [OF decode_five, where rnd = Fin]
    decode_sentinel decode_infinity decode_five
  by (simp add: fge_def fmul_def default_channel_def)

subsection \<open>Bit slices\<close>

lemma slice_mask: "drop_bit n (v::int) AND (2 ^ m - 1) = take_bit m (drop_bit n v)"
  by (simp add: take_bit_eq_mask mask_eq_exp_minus_1)

lemma apply_bit_slice_unsigned:
  assumes "0 \<le> sb" "0 < bl"
  shows "apply_bit_slice v sb bl False = Inr (take_bit (nat bl) (drop_bit (nat sb) v))"
  using assms by (simp add: apply_bit_slice_def Let_def slice_mask)

lemma apply_bit_slice_signed:
  assumes "0 \<le> sb" "0 < bl"
  shows "apply_bit_slice v sb bl True = Inr (signed_take_bit (nat bl - 1) (drop_bit (nat sb) v))"
proof -
  obtain n where n: "nat bl = Suc n" using assms(2) by (cases "nat bl") auto
  then have n': "nat (bl - 1) = n" by linarith
  let ?x = "drop_bit (nat sb) v"
  have unf: "apply_bit_slice v sb bl True =
      (if take_bit (nat bl) ?x AND 2 ^ nat (bl - 1) \<noteq> 0
       then Inr (take_bit (nat bl) ?x - 2 ^ nat bl) else Inr (take_bit (nat bl) ?x))"
    using assms by (simp add: apply_bit_slice_def Let_def slice_mask)
  have top: "(take_bit (Suc n) ?x AND 2 ^ n \<noteq> 0) = bit ?x n"
    by (simp add: and_exp_eq_0_iff_not_bit bit_take_bit_iff)
  have "signed_take_bit n ?x = take_bit (Suc n) ?x - 2 ^ Suc n * of_bool (bit ?x n)"
    by (rule signed_take_bit_eq_take_bit_minus)
  then show ?thesis
    unfolding unf n n' top by simp
qed

lemma apply_bit_slice_range:
  assumes "0 \<le> sb" "0 < bl"
  shows "apply_bit_slice v sb bl sgnd = Inr (bit_range v (nat sb) (nat bl) sgnd)"
proof (cases sgnd)
  case True
  obtain n where n: "nat bl = Suc n" using assms(2) by (cases "nat bl") auto
  have "signed_take_bit n (take_bit (Suc n) (drop_bit (nat sb) v)) = signed_take_bit n (drop_bit (nat sb) v)"
    by (simp add: signed_take_bit_take_bit)
  with True show ?thesis
    using apply_bit_slice_signed [OF assms, of v] by (simp add: bit_range_def n)
next
  case False
  then show ?thesis
    using apply_bit_slice_unsigned [OF assms, of v] by (simp add: bit_range_def)
qed

lemma apply_bit_slice_empty: "bl \<le> 0 \<Longrightarrow> apply_bit_slice v sb bl sgnd = Inr v"
  by (simp add: apply_bit_slice_def)

lemma int_format_flags:
  assumes "raw_format ch \<in> {''uint_be'', ''uint_le'', ''int_be'', ''int_le''}"
  shows "startswith (raw_format ch) ''int_'' = (raw_format ch \<in> {''int_be'', ''int_le''})"
    and "endswith (raw_format ch) ''be'' = (raw_format ch \<in> {''uint_be'', ''int_be''})"
  using assms by (auto simp: startswith_def endswith_def)

lemma hex_F0: "hex_to_bytes ''F0'' = Inr [0xF0]"
  by (simp add: hex_to_bytes_def text_simps hex_re_match_def hex_re_exact_def is_hex_def hex_val_def)

lemma bit_range_example: "bit_range (- 16) 4 4 True = - 1"
  by (simp add: bit_range_def signed_take_bit_eq_take_bit_shift take_bit_eq_mod drop_bit_eq_div)

lemma from_bytes_F0: "from_bytes [0xF0] True True = - 16" "from_bytes [0xF0] True False = 240"
  by (simp_all add: from_bytes_def be_value_def)

text \<open>
  C4, as amended.  For an integer format with \<open>start_bit\<close> and \<open>bit_length\<close> both set, on
  a payload that is valid hex: when \<open>start_bit \<ge> 0\<close> and \<open>bit_length \<ge> 1\<close>, the decoded
  value is the float of the bit range of the decoded integer (bit 0 the least
  significant), read as two's complement on the range's own top bit when the format is
  signed; when \<open>bit_length \<le> 0\<close>, it is the float of the whole decoded integer, unsliced.
  The byte \<open>F0\<close> with \<open>start_bit = 4\<close>, \<open>bit_length = 4\<close> decodes to 15 in an unsigned format
  and to -1 in a signed one.
\<close>

theorem decode_bit_slice:
  assumes "hex_to_bytes hex_str = Inr bs"
    and "raw_format ch \<in> {''uint_be'', ''uint_le'', ''int_be'', ''int_le''}"
    and "start_bit ch = Some sb" and "bit_length ch = Some bl"
    and "sgnd = (raw_format ch \<in> {''int_be'', ''int_le''})"
    and "big = (raw_format ch \<in> {''uint_be'', ''int_be''})"
  shows "(0 \<le> sb \<and> 0 < bl \<longrightarrow>
            decode_raw_value hex_str ch
              = float_of_int (bit_range (from_bytes bs big sgnd) (nat sb) (nat bl) sgnd))
       \<and> (bl \<le> 0 \<longrightarrow> decode_raw_value hex_str ch = float_of_int (from_bytes bs big sgnd))
       \<and> decode_raw_value ''F0'' (default_channel\<lparr>start_bit := Some 4, bit_length := Some 4\<rparr>)
           = Inr (Fin 15)
       \<and> decode_raw_value ''F0''
             (default_channel\<lparr>raw_format := ''int_be'', start_bit := Some 4, bit_length := Some 4\<rparr>)
           = Inr (Fin (- 1))"
proof -
  have fl: "startswith (raw_format ch) ''int_'' = sgnd" "endswith (raw_format ch) ''be'' = big"
    using int_format_flags [OF assms(2)] assms(5,6) by simp_all
  have dec: "decode_raw_value hex_str ch =
      (case apply_bit_slice (from_bytes bs big sgnd) sb bl sgnd of
         Inl e \<Rightarrow> Inl e | Inr v' \<Rightarrow> float_of_int v')"
    using assms(1-4) fl by (simp add: decode_raw_value_def Let_def)
  have a: "0 \<le> sb \<and> 0 < bl \<longrightarrow>
            decode_raw_value hex_str ch
              = float_of_int (bit_range (from_bytes bs big sgnd) (nat sb) (nat bl) sgnd)"
    by (simp add: dec apply_bit_slice_range)
  have b: "bl \<le> 0 \<longrightarrow> decode_raw_value hex_str ch = float_of_int (from_bytes bs big sgnd)"
    by (simp add: dec apply_bit_slice_empty)
  have c: "decode_raw_value ''F0'' (default_channel\<lparr>start_bit := Some 4, bit_length := Some 4\<rparr>)
           = Inr (Fin 15)"
    by (simp add: decode_simps default_channel_def)
  have d: "decode_raw_value ''F0''
             (default_channel\<lparr>raw_format := ''int_be'', start_bit := Some 4, bit_length := Some 4\<rparr>)
           = Inr (Fin (- 1))"
    by (simp add: decode_simps default_channel_def)
  from a b c d show ?thesis by blast
qed

theorem decode_bit_slice_witness:
  "hex_to_bytes ''F0'' = Inr [0xF0]
   \<and> decode_raw_value ''F0'' (default_channel\<lparr>raw_format := ''int_be'', start_bit := Some 4, bit_length := Some 4\<rparr>)
       = float_of_int (bit_range (from_bytes [0xF0] True True) 4 4 True)
   \<and> bit_range (from_bytes [0xF0] True True) 4 4 True = - 1
   \<and> decode_raw_value ''F0'' (default_channel\<lparr>start_bit := Some 4, bit_length := Some 0\<rparr>)
       = float_of_int (from_bytes [0xF0] True False)
   \<and> from_bytes [0xF0] True False = 240"
  using decode_bit_slice [OF hex_F0, where ch = "default_channel\<lparr>raw_format := ''int_be'', start_bit := Some 4, bit_length := Some 4\<rparr>"
      and sb = 4 and bl = 4 and sgnd = True and big = True]
    decode_bit_slice [OF hex_F0, where ch = "default_channel\<lparr>start_bit := Some 4, bit_length := Some 0\<rparr>"
      and sb = 4 and bl = 0 and sgnd = False and big = True]
    hex_F0 bit_range_example
  by (simp add: default_channel_def from_bytes_F0)

text \<open>
  C4 as stated fails for a range of length zero: with \<open>start_bit = 4\<close> and
  \<open>bit_length = 0\<close> both set, the byte \<open>F0\<close> decodes to 240, the whole integer, where the
  empty bit range is 0.
\<close>

theorem bit_slice_zero_length_counterexample:
  "hex_to_bytes ''F0'' = Inr [0xF0]
   \<and> decode_raw_value ''F0'' (default_channel\<lparr>start_bit := Some 4, bit_length := Some 0\<rparr>) = Inr (Fin 240)
   \<and> float_of_int (bit_range (from_bytes [0xF0] True False) 4 0 False) = Inr (Fin 0)"
  by (simp add: decode_simps default_channel_def bit_range_def)

subsection \<open>Configuration store\<close>

lemmas int_simps = py_int_def int_unsigned_def text_simps

lemma replicate_8: "replicate 8 x = [x, x, x, x, x, x, x, x]"
  by (simp add: numeral_eq_Suc)

text \<open>
  C7, as amended.  For every key that is none of the nine target and tolerance keys and
  from which no offset index between 0 and 7 is read (the key does not start with \<open>off\<close>,
  or what follows \<open>off\<close> is not an integer for \<open>int\<close>, or the integer is out of range),
  and for every value, \<open>update_from_hmi_set\<close> returns false and leaves the whole store as
  it was, version counter included.
\<close>

theorem unknown_key_no_mutation:
  assumes "key \<notin> set TARGET_KEYS"
    and "\<forall>idx. offset_index key = Some idx \<longrightarrow> idx < 0 \<or> 8 \<le> idx"
  shows "update_from_hmi_set rnd key v st = (Inr False, st)"
  using assms
  by (auto simp: update_from_hmi_set_def TARGET_KEYS_def offset_index_def Let_def split: option.splits)

theorem unknown_key_no_mutation_witness:
  "''volume'' \<notin> set TARGET_KEYS \<and> offset_index ''volume'' = None
   \<and> update_from_hmi_set Fin ''volume'' (Fin 1) \<lparr>cfg = default_config, version = 1\<rparr>
       = (Inr False, \<lparr>cfg = default_config, version = 1\<rparr>)
   \<and> ''off8'' \<notin> set TARGET_KEYS \<and> offset_index ''off8'' = Some 8
   \<and> update_from_hmi_set Fin ''off8'' (Fin 1) \<lparr>cfg = default_config, version = 1\<rparr>
       = (Inr False, \<lparr>cfg = default_config, version = 1\<rparr>)"
proof -
  have a: "''volume'' \<notin> set TARGET_KEYS" "''off8'' \<notin> set TARGET_KEYS"
    by (simp_all add: TARGET_KEYS_def)
  have b: "offset_index ''volume'' = None" "offset_index ''off8'' = Some 8"
    by (simp_all add: offset_index_def int_simps)
  show ?thesis
    using unknown_key_no_mutation [OF a(1), of Fin "Fin 1" "\<lparr>cfg = default_config, version = 1\<rparr>"]
      unknown_key_no_mutation [OF a(2), of Fin "Fin 1" "\<lparr>cfg = default_config, version = 1\<rparr>"]
      a b
    by simp
qed

text \<open>
  C7 as stated fails: the key \<open>off03\<close> is not in the fixed table, and the update
  succeeds on it, writes offset 3 and raises the version.
\<close>

theorem lenient_offset_key_counterexample:
  "''off03'' \<notin> set SYMBOLIC_TABLE
   \<and> update_from_hmi_set Fin ''off03'' (Fin 1) \<lparr>cfg = default_config, version = 1\<rparr>
       = (Inr True, \<lparr>cfg = default_config\<lparr>offsets_mm :=
            [Fin 0, Fin 0, Fin 0, Fin (254 / 10), Fin 0, Fin 0, Fin 0, Fin 0]\<rparr>, version = 2\<rparr>)"
  by (simp add: SYMBOLIC_TABLE_def TARGET_KEYS_def update_from_hmi_set_def int_simps bump_def
      default_config_def in_to_mm_def MM_PER_IN_def fmul_def Let_def replicate_8)

text \<open>
  C8.  Each mutating operation of the store that returns (for the symbolic set: returns
  true) leaves the version counter exactly one higher: \<open>replace_config\<close>,
  \<open>update_targets_mm\<close>, \<open>update_offsets_mm\<close>, \<open>update_from_hmi_set\<close> and \<open>load\<close>.  No
  operation, whatever its outcome, lowers the version, and so no sequence of operations
  does.
\<close>

theorem version_monotonic:
  "version (replace_config c st) = version st + 1
   \<and> version (update_targets_mm u st) = version st + 1
   \<and> version (update_offsets_mm os st) = version st + 1
   \<and> (fst (update_from_hmi_set rnd key v st) = Inr True \<longrightarrow>
        version (snd (update_from_hmi_set rnd key v st)) = version st + 1)
   \<and> (fst (load d st) = Inr True \<longrightarrow> version (snd (load d st)) = version st + 1)
   \<and> (fst (apply_mutation rnd m st) = Inr True \<longrightarrow>
        version (snd (apply_mutation rnd m st)) = version st + 1)
   \<and> version st \<le> version (snd (apply_mutation rnd m st))
   \<and> version st \<le> version (apply_mutations rnd ms st)"
proof -
  have hs: "fst (update_from_hmi_set rnd key v st) = Inr True \<longrightarrow>
        version (snd (update_from_hmi_set rnd key v st)) = version st + 1" for key v st
    by (simp add: update_from_hmi_set_def bump_def Let_def split: option.split)
  have hm: "version st \<le> version (snd (update_from_hmi_set rnd key v st))" for key v st
    by (simp add: update_from_hmi_set_def bump_def Let_def split: option.split)
  have ls: "fst (load d st) = Inr True \<longrightarrow> version (snd (load d st)) = version st + 1" for d st
    by (simp add: load_def split: disk.split)
  have lm: "version st \<le> version (snd (load d st))" for d st
    by (simp add: load_def split: disk.split)
  have r: "version (replace_config c st) = version st + 1" for c st
    by (simp add: replace_config_def)
  have t: "version (update_targets_mm u st) = version st + 1" for u st
    by (simp add: update_targets_mm_def)
  have o: "version (update_offsets_mm os st) = version st + 1" for os st
    by (simp add: update_offsets_mm_def Let_def)
  have ms: "fst (apply_mutation rnd m st) = Inr True \<longrightarrow>
        version (snd (apply_mutation rnd m st)) = version st + 1" for m st
    by (cases m) (simp_all add: r t o hs ls)
  have mm: "version st \<le> version (snd (apply_mutation rnd m st))" for m st
    by (cases m) (simp_all add: r t o hm lm)
  have seq: "version st \<le> version (apply_mutations rnd ms st)"
  proof (induction ms arbitrary: st)
    case Nil
    show ?case by simp
  next
    case (Cons m ms)
    have "version st \<le> version (snd (apply_mutation rnd m st))" by (rule mm)
    also have "\<dots> \<le> version (apply_mutations rnd ms (snd (apply_mutation rnd m st)))"
      by (rule Cons.IH)
    finally show ?case by simp
  qed
  show ?thesis
    using r t o hs ls ms mm seq by blast
qed

theorem version_monotonic_witness:
  "fst (update_from_hmi_set Fin ''d1t'' (Fin 10) \<lparr>cfg = default_config, version = 1\<rparr>) = Inr True
   \<and> version (snd (update_from_hmi_set Fin ''d1t'' (Fin 10) \<lparr>cfg = default_config, version = 1\<rparr>)) = 2
   \<and> fst (load (FileConfig default_config) \<lparr>cfg = default_config, version = 1\<rparr>) = Inr True
   \<and> version (snd (load (FileConfig default_config) \<lparr>cfg = default_config, version = 1\<rparr>)) = 2
   \<and> fst (apply_mutation Fin (HmiSet ''off7'' (Fin 1)) \<lparr>cfg = default_config, version = 1\<rparr>) = Inr True
   \<and> version (snd (apply_mutation Fin (HmiSet ''off7'' (Fin 1)) \<lparr>cfg = default_config, version = 1\<rparr>)) = 2
   \<and> version (apply_mutations Fin [HmiSet ''nope'' (Fin 1), Load FileInvalid, Replace default_config,
         UpdateOffsets [Fin 1], Load (NoFile False)] \<lparr>cfg = default_config, version = 1\<rparr>) = 3"
proof -
  let ?s = "\<lparr>cfg = default_config, version = 1\<rparr>"
  have a: "fst (update_from_hmi_set Fin ''d1t'' (Fin 10) ?s) = Inr True"
    by (simp add: update_from_hmi_set_def bump_def Let_def)
  have b: "fst (load (FileConfig default_config) ?s) = Inr True"
    by (simp add: load_def)
  have c: "fst (apply_mutation Fin (HmiSet ''off7'' (Fin 1)) ?s) = Inr True"
    by (simp add: update_from_hmi_set_def bump_def Let_def int_simps default_config_def)
  have d: "version (apply_mutations Fin [HmiSet ''nope'' (Fin 1), Load FileInvalid, Replace default_config,
         UpdateOffsets [Fin 1], Load (NoFile False)] ?s) = 3"
    by (simp add: update_from_hmi_set_def bump_def Let_def int_simps load_def replace_config_def
        update_offsets_mm_def)
  show ?thesis
    using version_monotonic [where c = default_config and st = ?s and rnd = Fin and key = "''d1t''"
        and v = "Fin 10" and d = "FileConfig default_config" and m = "HmiSet ''off7'' (Fin 1)"] a b c d
    by simp
qed

subsection \<open>Hex extraction\<close>













subsection \<open>Scheduling\<close>

text \<open>
  C10, as amended.  In a pass of the measurement loop that runs a cycle (the clock
  reading taken at the top of the pass is not before the tick held), the next tick is
  that clock reading plus the current poll interval; the tick held does not enter it.
  In a pass that is ahead of schedule the loop sleeps 10 ms and keeps the tick.
\<close>

theorem schedule_from_now:
  "(flt now next_tick \<longrightarrow>
      schedule rnd next_tick now interval = (Sleep (Fin (1 / 100)), next_tick))
   \<and> (\<not> flt now next_tick \<longrightarrow>
      schedule rnd next_tick now interval = (Cycle, fadd rnd now interval))"
  by (simp add: schedule_def)

theorem schedule_from_now_witness:
  "flt (Fin 1) (Fin 2)
   \<and> schedule Fin (Fin 2) (Fin 1) (Fin (5 / 10)) = (Sleep (Fin (1 / 100)), Fin 2)
   \<and> \<not> flt (Fin 3) (Fin 2)
   \<and> schedule Fin (Fin 2) (Fin 3) (Fin (5 / 10)) = (Cycle, Fin (35 / 10))"
  using schedule_from_now [of "Fin 1" "Fin 2" Fin "Fin (5 / 10)"]
    schedule_from_now [of "Fin 3" "Fin 2" Fin "Fin (5 / 10)"]
  by simp

text \<open>
  C10 as stated fails: with the tick at 0, a pass that starts at 0.3 and an interval of
  0.5, the code sets the next tick to 0.8, where accumulation from the previous tick
  gives 0.5.
\<close>

theorem schedule_drift_counterexample:
  "schedule Fin (Fin 0) (Fin (3 / 10)) (Fin (5 / 10)) = (Cycle, Fin (8 / 10))
   \<and> accumulated_tick Fin (Fin 0) (Fin (5 / 10)) = Fin (5 / 10)
   \<and> Fin (8 / 10) \<noteq> Fin (5 / 10)"
  by (simp add: schedule_def accumulated_tick_def)

subsection \<open>Frame assembly\<close>

text \<open>
  C5.  From an empty accumulator and a terminator count of zero, the bytes of
  \<open>SET d1t 10.0\<close> followed by three bytes \<open>FF\<close> make the loop call \<open>_process_frame\<close> once,
  on exactly these bytes, and leave the accumulator empty and the count zero (a
  \<open>_process_frame\<close> that raises ends the loop instead); with a \<open>_process_frame\<close> that
  records its argument, the record is that one frame.  Every byte other than \<open>FF\<close> sets
  the count to 0 and is appended to the accumulator, unless the accumulator already
  holds 256 bytes: then the byte is dropped and the accumulator is unchanged.
\<close>

theorem frame_assembly:
  "read_bytes process_frame (\<lparr>buf = [], ff_count = 0\<rparr>, h)
       (ascii ''SET d1t 10.0'' @ [0xFF, 0xFF, 0xFF])
     = (case process_frame (ascii ''SET d1t 10.0'') h of
          Inl e \<Rightarrow> Inl e
        | Inr h' \<Rightarrow> Inr (\<lparr>buf = [], ff_count = 0\<rparr>, h'))
   \<and> read_bytes record_frame (\<lparr>buf = [], ff_count = 0\<rparr>, [])
       (ascii ''SET d1t 10.0'' @ [0xFF, 0xFF, 0xFF])
     = Inr (\<lparr>buf = [], ff_count = 0\<rparr>, [ascii ''SET d1t 10.0''])
   \<and> (b \<noteq> 0xFF \<longrightarrow>
        read_byte process_frame (a, h) b
          = Inr (\<lparr>buf = (if length (buf a) < 256 then buf a @ [b] else buf a), ff_count = 0\<rparr>, h))"
proof -
  have run: "read_bytes pf (\<lparr>buf = [], ff_count = 0\<rparr>, g)
       (ascii ''SET d1t 10.0'' @ [0xFF, 0xFF, 0xFF])
     = (case pf (ascii ''SET d1t 10.0'') g of
          Inl e \<Rightarrow> Inl e
        | Inr g' \<Rightarrow> Inr (\<lparr>buf = [], ff_count = 0\<rparr>, g'))" for pf :: "byte list \<Rightarrow> 'x \<Rightarrow> error + 'x" and g
    by (simp add: ascii_def read_byte_def Let_def split: sum.split)
  have one: "read_bytes record_frame (\<lparr>buf = [], ff_count = 0\<rparr>, [])
       (ascii ''SET d1t 10.0'' @ [0xFF, 0xFF, 0xFF])
     = Inr (\<lparr>buf = [], ff_count = 0\<rparr>, [ascii ''SET d1t 10.0''])"
    by (simp add: run record_frame_def)
  have other: "b \<noteq> 0xFF \<longrightarrow>
        read_byte process_frame (a, h) b
          = Inr (\<lparr>buf = (if length (buf a) < 256 then buf a @ [b] else buf a), ff_count = 0\<rparr>, h)"
    by (cases a) (simp add: read_byte_def Let_def)
  from run [of process_frame h] one other show ?thesis by blast
qed

theorem frame_assembly_witness:
  "(0x41 :: byte) \<noteq> 0xFF
   \<and> read_byte record_frame (\<lparr>buf = [0x53], ff_count = 2\<rparr>, []) 0x41
       = Inr (\<lparr>buf = [0x53, 0x41], ff_count = 0\<rparr>, [])
   \<and> read_byte record_frame (\<lparr>buf = replicate 256 0x53, ff_count = 2\<rparr>, []) 0x41
       = Inr (\<lparr>buf = replicate 256 0x53, ff_count = 0\<rparr>, [])"
  using frame_assembly [of record_frame "[]" "0x41" "\<lparr>buf = [0x53], ff_count = 2\<rparr>"]
    frame_assembly [of record_frame "[]" "0x41" "\<lparr>buf = replicate 256 0x53, ff_count = 2\<rparr>"]
  by simp

subsection \<open>SET commands\<close>

lemmas line_simps = handle_line_def handle_set_def split_ws_def upper_def to_upper_def lower_def
  to_lower_def split1_def log_add_def update_from_hmi_set_def bump_def in_to_mm_def MM_PER_IN_def
  fmul_def int_simps Let_def

lemma set_separator_form:
  assumes "float_of_str ''1.0'' = Some (Fin 1)" and "rnd (254 / 10) = Fin (254 / 10)"
    and "3 < length (offsets_mm (cfg (store h)))"
  shows "handle_line rnd float_of_str writable ''SET off3=1.0'' h =
     Inr (h\<lparr>log := log h @ [(''INFO'', HmiCommand ''SET off3=1.0'')],
            store := (store h)\<lparr>cfg := (cfg (store h))\<lparr>offsets_mm :=
                (offsets_mm (cfg (store h)))[3 := Fin (254 / 10)]\<rparr>,
              version := version (store h) + 1\<rparr>\<rparr>)"
  using assms by (simp add: line_simps)

lemma set_space_form:
  assumes "float_of_str ''1.0'' = Some (Fin 1)" and "rnd (254 / 10) = Fin (254 / 10)"
    and "3 < length (offsets_mm (cfg (store h)))"
  shows "handle_line rnd float_of_str writable ''SET off3 1.0'' h =
     Inr (h\<lparr>log := log h @ [(''INFO'', HmiCommand ''SET off3 1.0'')],
            store := (store h)\<lparr>cfg := (cfg (store h))\<lparr>offsets_mm :=
                (offsets_mm (cfg (store h)))[3 := Fin (254 / 10)]\<rparr>,
              version := version (store h) + 1\<rparr>\<rparr>)"
  using assms by (simp add: line_simps)

lemma set_colon_form:
  assumes "float_of_str ''1.0'' = Some (Fin 1)" and "rnd (254 / 10) = Fin (254 / 10)"
    and "3 < length (offsets_mm (cfg (store h)))"
  shows "handle_line rnd float_of_str writable ''SET off3:1.0'' h =
     Inr (h\<lparr>log := log h @ [(''INFO'', HmiCommand ''SET off3:1.0'')],
            store := (store h)\<lparr>cfg := (cfg (store h))\<lparr>offsets_mm :=
                (offsets_mm (cfg (store h)))[3 := Fin (254 / 10)]\<rparr>,
              version := version (store h) + 1\<rparr>\<rparr>)"
  using assms by (simp add: line_simps)

lemma set_comma_form:
  assumes "float_of_str ''1.0'' = Some (Fin 1)" and "rnd (254 / 10) = Fin (254 / 10)"
    and "3 < length (offsets_mm (cfg (store h)))"
  shows "handle_line rnd float_of_str writable ''SET off3,1.0'' h =
     Inr (h\<lparr>log := log h @ [(''INFO'', HmiCommand ''SET off3,1.0'')],
            store := (store h)\<lparr>cfg := (cfg (store h))\<lparr>offsets_mm :=
                (offsets_mm (cfg (store h)))[3 := Fin (254 / 10)]\<rparr>,
              version := version (store h) + 1\<rparr>\<rparr>)"
  using assms by (simp add: line_simps)

text \<open>
  C6.  The command lines \<open>SET off3=1.0\<close> and \<open>SET off3 1.0\<close> are both accepted and leave
  the same configuration store: the one before with \<open>offsets_mm[3]\<close> set to 25.4 and the
  version one higher; so do the forms \<open>SET off3:1.0\<close> and \<open>SET off3,1.0\<close>.  (\<open>float\<close> reads \<open>1.0\<close> as 1.0, the product of 1.0 and 25.4 is 25.4
  exactly, and the list of offsets has its index 3.)
\<close>

theorem set_forms_agree:
  assumes "float_of_str ''1.0'' = Some (Fin 1)" and "rnd (254 / 10) = Fin (254 / 10)"
    and "3 < length (offsets_mm (cfg (store h)))"
  shows "\<exists>h1 h2 h3 h4.
       handle_line rnd float_of_str writable ''SET off3=1.0'' h = Inr h1
     \<and> handle_line rnd float_of_str writable ''SET off3 1.0'' h = Inr h2
     \<and> handle_line rnd float_of_str writable ''SET off3:1.0'' h = Inr h3
     \<and> handle_line rnd float_of_str writable ''SET off3,1.0'' h = Inr h4
     \<and> store h1 = store h2 \<and> store h1 = store h3 \<and> store h1 = store h4
     \<and> store h1 = (store h)\<lparr>cfg := (cfg (store h))\<lparr>offsets_mm :=
                (offsets_mm (cfg (store h)))[3 := Fin (254 / 10)]\<rparr>,
              version := version (store h) + 1\<rparr>
     \<and> offsets_mm (cfg (store h1)) ! 3 = Fin (254 / 10)"
proof -
  have a: "handle_line rnd float_of_str writable ''SET off3=1.0'' h =
     Inr (h\<lparr>log := log h @ [(''INFO'', HmiCommand ''SET off3=1.0'')],
            store := (store h)\<lparr>cfg := (cfg (store h))\<lparr>offsets_mm :=
                (offsets_mm (cfg (store h)))[3 := Fin (254 / 10)]\<rparr>,
              version := version (store h) + 1\<rparr>\<rparr>)"
    using assms by (rule set_separator_form)
  have b: "handle_line rnd float_of_str writable ''SET off3 1.0'' h =
     Inr (h\<lparr>log := log h @ [(''INFO'', HmiCommand ''SET off3 1.0'')],
            store := (store h)\<lparr>cfg := (cfg (store h))\<lparr>offsets_mm :=
                (offsets_mm (cfg (store h)))[3 := Fin (254 / 10)]\<rparr>,
              version := version (store h) + 1\<rparr>\<rparr>)"
    using assms by (rule set_space_form)
  have c: "handle_line rnd float_of_str writable ''SET off3:1.0'' h =
     Inr (h\<lparr>log := log h @ [(''INFO'', HmiCommand ''SET off3:1.0'')],
            store := (store h)\<lparr>cfg := (cfg (store h))\<lparr>offsets_mm :=
                (offsets_mm (cfg (store h)))[3 := Fin (254 / 10)]\<rparr>,
              version := version (store h) + 1\<rparr>\<rparr>)"
    using assms by (rule set_colon_form)
  have d: "handle_line rnd float_of_str writable ''SET off3,1.0'' h =
     Inr (h\<lparr>log := log h @ [(''INFO'', HmiCommand ''SET off3,1.0'')],
            store := (store h)\<lparr>cfg := (cfg (store h))\<lparr>offsets_mm :=
                (offsets_mm (cfg (store h)))[3 := Fin (254 / 10)]\<rparr>,
              version := version (store h) + 1\<rparr>\<rparr>)"
    using assms by (rule set_comma_form)
  show ?thesis
    unfolding a b c d using assms(3) by simp
qed

theorem set_forms_agree_witness:
  "\<exists>h1 h2.
       handle_line Fin (\<lambda>s. if s = ''1.0'' then Some (Fin 1) else None) True ''SET off3=1.0''
         \<lparr>store = \<lparr>cfg = default_config, version = 1\<rparr>, log = [], sent = []\<rparr> = Inr h1
     \<and> handle_line Fin (\<lambda>s. if s = ''1.0'' then Some (Fin 1) else None) True ''SET off3 1.0''
         \<lparr>store = \<lparr>cfg = default_config, version = 1\<rparr>, log = [], sent = []\<rparr> = Inr h2
     \<and> store h1 = store h2
     \<and> version (store h1) = 2
     \<and> offsets_mm (cfg (store h1)) = [Fin 0, Fin 0, Fin 0, Fin (254 / 10), Fin 0, Fin 0, Fin 0, Fin 0]"
proof -
  let ?f = "\<lambda>s. if s = ''1.0'' then Some (Fin 1) else None"
  let ?h = "\<lparr>store = \<lparr>cfg = default_config, version = 1\<rparr>, log = [], sent = []\<rparr>"
  have a: "?f ''1.0'' = Some (Fin 1)" by simp
  have b: "Fin (254 / 10) = Fin (254 / 10)" by simp
  have c: "3 < length (offsets_mm (cfg (store ?h)))" by (simp add: default_config_def)
  from set_forms_agree [where float_of_str = ?f and rnd = Fin and h = ?h and writable = True, OF a b c]
  obtain h1 h2 h3 h4 where r:
    "handle_line Fin ?f True ''SET off3=1.0'' ?h = Inr h1"
    "handle_line Fin ?f True ''SET off3 1.0'' ?h = Inr h2"
    "store h1 = store h2"
    "store h1 = (store ?h)\<lparr>cfg := (cfg (store ?h))\<lparr>offsets_mm :=
                (offsets_mm (cfg (store ?h)))[3 := Fin (254 / 10)]\<rparr>,
              version := version (store ?h) + 1\<rparr>"
    "handle_line Fin ?f True ''SET off3:1.0'' ?h = Inr h3"
    "handle_line Fin ?f True ''SET off3,1.0'' ?h = Inr h4"
    by blast
  from r(4) have "version (store h1) = 2"
    and "offsets_mm (cfg (store h1)) = [Fin 0, Fin 0, Fin 0, Fin (254 / 10), Fin 0, Fin 0, Fin 0, Fin 0]"
    by (simp_all add: default_config_def replicate_8)
  with r(1,2,3) show ?thesis by blast
qed

subsection \<open>Overall pass\<close>

lemma convert_one_failed:
  "convert_one rnd c i r = Inr (False, x) \<Longrightarrow> snd x = NaN"
  by (auto simp: convert_one_def split: option.splits if_splits sum.splits error.splits)

lemma convert_all_failed:
  "convert_all rnd c i rs = Inr (k, xs) \<Longrightarrow>
     length xs = length rs \<and> (\<not> k \<longrightarrow> (\<exists>j < length xs. snd (xs ! j) = NaN))"
proof (induction rs arbitrary: i k xs)
  case Nil
  then show ?case by simp
next
  case (Cons r rs)
  from Cons.prems obtain k1 x k2 ys where
    one: "convert_one rnd c i r = Inr (k1, x)" and
    rest: "convert_all rnd c (Suc i) rs = Inr (k2, ys)" and
    k: "k = (k1 \<and> k2)" and xs: "xs = x # ys"
    by (auto split: sum.splits prod.splits)
  from Cons.IH [OF rest] have len: "length ys = length rs"
    and ih: "\<not> k2 \<longrightarrow> (\<exists>j < length ys. snd (ys ! j) = NaN)" by blast+
  have "\<exists>j < length xs. snd (xs ! j) = NaN" if "\<not> k"
  proof (cases k1)
    case False
    with one have "snd x = NaN" by (auto dest: convert_one_failed)
    then have "snd (xs ! 0) = NaN" by (simp add: xs)
    then show ?thesis unfolding xs by (intro exI [of _ 0]) simp
  next
    case True
    with that k have "\<not> k2" by simp
    with ih obtain j where "j < length ys" "snd (ys ! j) = NaN" by blast
    then show ?thesis unfolding xs by (intro exI [of _ "Suc j"]) simp
  qed
  with len xs show ?case by simp
qed

lemma add_offsets_nan:
  "add_offsets rnd offs i vs = Inr ws \<Longrightarrow>
     length ws = length vs \<and> (\<forall>j < length vs. vs ! j = NaN \<longrightarrow> ws ! j = NaN)"
proof (induction vs arbitrary: i ws)
  case Nil
  then show ?case by simp
next
  case (Cons v vs)
  from Cons.prems obtain ws' where
    rest: "add_offsets rnd offs (Suc i) vs = Inr ws'" and
    ws: "ws = (if isfinite v then fadd rnd v (offs ! i) else NaN) # ws'"
    by (auto split: sum.splits if_splits)
  from Cons.IH [OF rest] have len: "length ws' = length vs"
    and ih: "\<forall>j < length vs. vs ! j = NaN \<longrightarrow> ws' ! j = NaN" by blast+
  have "(v # vs) ! j = NaN \<longrightarrow> ws ! j = NaN" if "j < length (v # vs)" for j
    using that ih by (cases j) (auto simp: ws)
  with len ws show ?case by simp
qed

lemma nan_fails_a_check:
  assumes "j < 8" and "w ! j = NaN"
  shows "\<not> (within_tol rnd (w ! 0) t1 e1 \<and> within_tol rnd (w ! 1) t2 e2
          \<and> within_max (or_nan (range_of_three rnd (w ! 2) (w ! 3) (w ! 4))) m1
          \<and> within_max (or_nan (range_of_three rnd (w ! 5) (w ! 6) (w ! 7))) m2)"
proof -
  from assms(1) have "j = 0 \<or> j = 1 \<or> j = 2 \<or> j = 3 \<or> j = 4 \<or> j = 5 \<or> j = 6 \<or> j = 7"
    by arith
  with assms(2) show ?thesis
    by (auto simp: within_tol_def within_max_def range_of_three_def or_nan_def)
qed

lemma convert_zero: "convert_hex Fin ''0x00000000'' default_channel = Inr (Some (Fin 0), Fin 0)"
  by (simp add: convert_hex_def decode_simps default_channel_def SENTINEL_RAW_MIN_def fge_def fmul_def)

lemma convert_bad: "convert_hex Fin ''zz'' default_channel = Inl ConversionError"
  by (simp add: convert_hex_def decode_simps default_channel_def)

lemma run_cycle_pass:
  "run_cycle Fin default_config
     (\<lambda>p. \<lparr>port = p, ok = True, raw_hex = Some ''0x00000000'', error = None,
            http_status = Some 200, response_time_s = Some (Fin 0)\<rparr>)
   = Inr \<lparr>s_raw_hex = replicate 8 (Some ''0x00000000''),
          s_raw_values = replicate 8 (Some (Fin 0)),
          s_values_mm = replicate 8 (Fin 0),
          s_metrics_mm = \<lparr>m_d1 = Fin 0, m_d2 = Fin 0, m_dDelta = Fin 0, m_end1_rng = Fin 0,
             m_end2_rng = Fin 0, m_length = Fin 1165\<rparr>,
          s_checks = \<lparr>c_d1 = True, c_d2 = True, c_dDelta = True, c_end1_rng = True,
             c_end2_rng = True, c_length = True\<rparr>,
          overall_pass = True\<rparr>"
  by (simp add: run_cycle_def convert_one_def convert_zero default_config_def replicate_8
      default_targets_def within_tol_def within_max_def within_max_abs_def range_of_three_def
      fmax3_def fmin3_def or_nan_def fsub_Fin CONSTANT_LENGTH_MM_def Let_def)

lemma run_cycle_bad_payload:
  "run_cycle Fin default_config
     (\<lambda>p. \<lparr>port = p, ok = True, raw_hex = Some (if p = 4 then ''zz'' else ''0x00000000''),
            error = None, http_status = Some 200, response_time_s = Some (Fin 0)\<rparr>)
   = Inr \<lparr>s_raw_hex = [Some ''0x00000000'', Some ''0x00000000'', Some ''0x00000000'', Some ''zz'',
            Some ''0x00000000'', Some ''0x00000000'', Some ''0x00000000'', Some ''0x00000000''],
          s_raw_values = [Some (Fin 0), Some (Fin 0), Some (Fin 0), None,
            Some (Fin 0), Some (Fin 0), Some (Fin 0), Some (Fin 0)],
          s_values_mm = [Fin 0, Fin 0, Fin 0, NaN, Fin 0, Fin 0, Fin 0, Fin 0],
          s_metrics_mm = \<lparr>m_d1 = Fin 0, m_d2 = Fin 0, m_dDelta = Fin 0, m_end1_rng = NaN,
             m_end2_rng = Fin 0, m_length = Fin 1165\<rparr>,
          s_checks = \<lparr>c_d1 = True, c_d2 = True, c_dDelta = True, c_end1_rng = False,
             c_end2_rng = True, c_length = True\<rparr>,
          overall_pass = False\<rparr>"
  by (simp add: run_cycle_def convert_one_def convert_zero convert_bad default_config_def replicate_8
      default_targets_def within_tol_def within_max_def within_max_abs_def range_of_three_def
      fmax3_def fmin3_def or_nan_def fsub_Fin CONSTANT_LENGTH_MM_def Let_def)

text \<open>
  C1.  For every cycle that publishes a state, the published \<open>overall_pass\<close> is true
  exactly when all eight reads returned ok and the six published checks are all true,
  and each published check is its tolerance predicate applied to the published metric
  and the targets of the configuration snapshot of that cycle.
\<close>

theorem overall_pass_iff:
  assumes "run_cycle rnd c client = Inr st"
  shows "overall_pass st =
           (list_all (\<lambda>p. ok (client p)) [1, 2, 3, 4, 5, 6, 7, 8]
            \<and> c_d1 (s_checks st) \<and> c_d2 (s_checks st) \<and> c_dDelta (s_checks st)
            \<and> c_end1_rng (s_checks st) \<and> c_end2_rng (s_checks st) \<and> c_length (s_checks st))
       \<and> c_d1 (s_checks st)
           = within_tol rnd (m_d1 (s_metrics_mm st)) (d1_target (targets c)) (d1_tol (targets c))
       \<and> c_d2 (s_checks st)
           = within_tol rnd (m_d2 (s_metrics_mm st)) (d2_target (targets c)) (d2_tol (targets c))
       \<and> c_dDelta (s_checks st)
           = within_max_abs (m_dDelta (s_metrics_mm st)) (dDelta_max (targets c))
       \<and> c_end1_rng (s_checks st)
           = within_max (m_end1_rng (s_metrics_mm st)) (end1_max (targets c))
       \<and> c_end2_rng (s_checks st)
           = within_max (m_end2_rng (s_metrics_mm st)) (end2_max (targets c))
       \<and> c_length (s_checks st)
           = within_tol rnd (m_length (s_metrics_mm st)) (len_target (targets c)) (len_tol (targets c))"
proof -
  let ?results = "map client [1, 2, 3, 4, 5, 6, 7, 8]"
  from assms obtain conv_ok converted where
    conv: "convert_all rnd c 0 ?results = Inr (conv_ok, converted)"
    by (auto simp: run_cycle_def Let_def split: sum.splits prod.splits)
  from assms conv obtain w where
    offs: "add_offsets rnd (offsets_mm c) 0 (map snd converted) = Inr w"
    by (auto simp: run_cycle_def Let_def split: sum.splits)
  let ?ok_d1 = "within_tol rnd (w ! 0) (d1_target (targets c)) (d1_tol (targets c))"
  let ?ok_d2 = "within_tol rnd (w ! 1) (d2_target (targets c)) (d2_tol (targets c))"
  let ?e1 = "or_nan (range_of_three rnd (w ! 2) (w ! 3) (w ! 4))"
  let ?e2 = "or_nan (range_of_three rnd (w ! 5) (w ! 6) (w ! 7))"
  let ?ok_e1 = "within_max ?e1 (end1_max (targets c))"
  let ?ok_e2 = "within_max ?e2 (end2_max (targets c))"
  from assms conv offs have st:
    "overall_pass st = ((list_all ok ?results \<and> conv_ok) \<and> c_d1 (s_checks st) \<and> c_d2 (s_checks st)
        \<and> c_dDelta (s_checks st) \<and> c_end1_rng (s_checks st) \<and> c_end2_rng (s_checks st)
        \<and> c_length (s_checks st))"
    "c_d1 (s_checks st) = ?ok_d1" "c_d2 (s_checks st) = ?ok_d2"
    "c_end1_rng (s_checks st) = ?ok_e1" "c_end2_rng (s_checks st) = ?ok_e2"
    by (auto simp: run_cycle_def Let_def)
  from assms conv offs have preds:
    "c_d1 (s_checks st)
       = within_tol rnd (m_d1 (s_metrics_mm st)) (d1_target (targets c)) (d1_tol (targets c))"
    "c_d2 (s_checks st)
       = within_tol rnd (m_d2 (s_metrics_mm st)) (d2_target (targets c)) (d2_tol (targets c))"
    "c_dDelta (s_checks st)
       = within_max_abs (m_dDelta (s_metrics_mm st)) (dDelta_max (targets c))"
    "c_end1_rng (s_checks st)
       = within_max (m_end1_rng (s_metrics_mm st)) (end1_max (targets c))"
    "c_end2_rng (s_checks st)
       = within_max (m_end2_rng (s_metrics_mm st)) (end2_max (targets c))"
    "c_length (s_checks st)
       = within_tol rnd (m_length (s_metrics_mm st)) (len_target (targets c)) (len_tol (targets c))"
    by (auto simp: run_cycle_def Let_def)
  have conv_ok: conv_ok if "?ok_d1 \<and> ?ok_d2 \<and> ?ok_e1 \<and> ?ok_e2"
  proof (rule ccontr)
    assume "\<not> conv_ok"
    with convert_all_failed [OF conv] obtain j where
      j: "j < length converted" "snd (converted ! j) = NaN" and len: "length converted = 8"
      by auto
    from add_offsets_nan [OF offs] j have "w ! j = NaN" by simp
    with j(1) len have "\<not> (?ok_d1 \<and> ?ok_d2 \<and> ?ok_e1 \<and> ?ok_e2)"
      by (intro nan_fails_a_check) simp_all
    with that show False by blast
  qed
  have reads: "list_all ok ?results = list_all (\<lambda>p. ok (client p)) [1, 2, 3, 4, 5, 6, 7, 8]"
    by simp
  have "overall_pass st =
           (list_all (\<lambda>p. ok (client p)) [1, 2, 3, 4, 5, 6, 7, 8]
            \<and> c_d1 (s_checks st) \<and> c_d2 (s_checks st) \<and> c_dDelta (s_checks st)
            \<and> c_end1_rng (s_checks st) \<and> c_end2_rng (s_checks st) \<and> c_length (s_checks st))"
    unfolding st(1) reads using conv_ok st(2-5) by blast
  with preds show ?thesis by blast
qed

theorem overall_pass_iff_witness:
  "(\<exists>st. run_cycle Fin default_config
           (\<lambda>p. \<lparr>port = p, ok = True, raw_hex = Some (if p = 4 then ''zz'' else ''0x00000000''),
                  error = None, http_status = Some 200, response_time_s = Some (Fin 0)\<rparr>) = Inr st
         \<and> \<not> overall_pass st \<and> \<not> c_end1_rng (s_checks st) \<and> m_end1_rng (s_metrics_mm st) = NaN)
   \<and> (\<exists>st. run_cycle Fin default_config
           (\<lambda>p. \<lparr>port = p, ok = True, raw_hex = Some ''0x00000000'', error = None,
                  http_status = Some 200, response_time_s = Some (Fin 0)\<rparr>) = Inr st
         \<and> overall_pass st \<and> c_d1 (s_checks st) \<and> c_d2 (s_checks st) \<and> c_dDelta (s_checks st)
         \<and> c_end1_rng (s_checks st) \<and> c_end2_rng (s_checks st) \<and> c_length (s_checks st))"
  using overall_pass_iff [OF run_cycle_bad_payload] overall_pass_iff [OF run_cycle_pass]
    run_cycle_bad_payload run_cycle_pass
  by simp

end
